theory Spec2Isabelle
  imports Complex_Main "HOL-Library.Sublist"
begin

section \<open>JavaScript values and the object store\<close>

text \<open>
  The functions of \<^verbatim>\<open>src/telegram/api-logging.ts\<close> and
  \<^verbatim>\<open>src/infra/retry-policy.ts\<close> probe values of type \<^verbatim>\<open>unknown\<close>.
  A value is a primitive or a reference to an object of the store; two references are
  the same object exactly when their addresses are equal, which is the identity the
  \<^verbatim>\<open>Set\<close> of \<^verbatim>\<open>collectErrorCandidates\<close> compares by. Error graphs may be cyclic,
  so objects live in a store and refer to one another by address.

  Numbers are the integer-valued numbers together with \<^verbatim>\<open>NaN\<close> and the two infinities;
  fractional numbers and the rounding of IEEE arithmetic are not represented. Strings are
  lists of 8-bit characters. Functions, symbols and bigints do not occur.
\<close>

type_synonym addr = nat

datatype jsnum = Fin int | NaN | PosInf | NegInf

datatype jsval =
    Undefined
  | Null
  | Bool bool
  | Num jsnum
  | Str string
  | Ref addr

text \<open>
  An object has its properties (own and inherited, flattened into one association list,
  the first binding of a key being the one that is read), the elements of the array when
  it is one (\<^verbatim>\<open>Array.isArray\<close>), and the names of the constructors on its prototype
  chain (\<^verbatim>\<open>instanceof\<close>).
\<close>

record jsobj =
  props :: "(string \<times> jsval) list"
  elems :: "jsval list option"
  classes :: "string list"

type_synonym heap = "jsobj list"

definition empty_obj :: jsobj where
  "empty_obj = \<lparr>props = [], elems = None, classes = []\<rparr>"

text \<open>The object at an address; an address outside the store has no properties.\<close>

definition obj_at :: "heap \<Rightarrow> addr \<Rightarrow> jsobj" where
  "obj_at h a = (if a < length h then h ! a else empty_obj)"

text \<open>\<^verbatim>\<open>!v\<close> is false exactly for the truthy values.\<close>

fun js_truthy :: "jsval \<Rightarrow> bool" where
  "js_truthy Undefined = False"
| "js_truthy Null = False"
| "js_truthy (Bool b) = b"
| "js_truthy (Num (Fin n)) = (n \<noteq> 0)"
| "js_truthy (Num NaN) = False"
| "js_truthy (Num PosInf) = True"
| "js_truthy (Num NegInf) = True"
| "js_truthy (Str s) = (s \<noteq> [])"
| "js_truthy (Ref a) = True"

text \<open>\<^verbatim>\<open>v == null\<close>\<close>

fun is_nullish :: "jsval \<Rightarrow> bool" where
  "is_nullish Undefined = True"
| "is_nullish Null = True"
| "is_nullish v = False"

text \<open>\<^verbatim>\<open>typeof v === "object"\<close> for a value that is not \<^verbatim>\<open>null\<close>\<close>

fun is_object :: "jsval \<Rightarrow> bool" where
  "is_object (Ref a) = True"
| "is_object v = False"

text \<open>\<^verbatim>\<open>v.key\<close>: a missing property, and any property of a primitive, reads as \<^verbatim>\<open>undefined\<close>.\<close>

fun get_prop :: "heap \<Rightarrow> jsval \<Rightarrow> string \<Rightarrow> jsval" where
  "get_prop h (Ref a) key =
     (case map_of (props (obj_at h a)) key of None \<Rightarrow> Undefined | Some v \<Rightarrow> v)"
| "get_prop h v key = Undefined"

text \<open>\<^verbatim>\<open>key in v\<close>, used on objects only\<close>

fun has_prop :: "heap \<Rightarrow> jsval \<Rightarrow> string \<Rightarrow> bool" where
  "has_prop h (Ref a) key = (map_of (props (obj_at h a)) key \<noteq> None)"
| "has_prop h v key = False"

text \<open>The elements of \<^verbatim>\<open>v\<close> when \<^verbatim>\<open>Array.isArray(v)\<close>\<close>

fun array_elems :: "heap \<Rightarrow> jsval \<Rightarrow> jsval list option" where
  "array_elems h (Ref a) = elems (obj_at h a)"
| "array_elems h v = None"

text \<open>\<^verbatim>\<open>v instanceof C\<close>\<close>

fun instance_of :: "heap \<Rightarrow> jsval \<Rightarrow> string \<Rightarrow> bool" where
  "instance_of h (Ref a) c = (c \<in> set (classes (obj_at h a)))"
| "instance_of h v c = False"

section \<open>Strings and numbers as text\<close>

text \<open>
  \<^verbatim>\<open>toUpperCase\<close>, \<^verbatim>\<open>toLowerCase\<close> and \<^verbatim>\<open>trim\<close> on ASCII text: the case of the
  letters a to z, and the white space characters tab, line feed, vertical tab, form feed,
  carriage return and space.
\<close>

definition lower_letters :: string where
  "lower_letters = ''abcdefghijklmnopqrstuvwxyz''"

definition upper_letters :: string where
  "upper_letters = ''ABCDEFGHIJKLMNOPQRSTUVWXYZ''"

definition upper_char :: "char \<Rightarrow> char" where
  "upper_char c = (case map_of (zip lower_letters upper_letters) c of None \<Rightarrow> c | Some u \<Rightarrow> u)"

definition lower_char :: "char \<Rightarrow> char" where
  "lower_char c = (case map_of (zip upper_letters lower_letters) c of None \<Rightarrow> c | Some l \<Rightarrow> l)"

definition toUpperCase :: "string \<Rightarrow> string" where
  "toUpperCase s = map upper_char s"

definition toLowerCase :: "string \<Rightarrow> string" where
  "toLowerCase s = map lower_char s"

definition is_space :: "char \<Rightarrow> bool" where
  "is_space c = (c \<in> set [CHR 0x09, CHR 0x0A, CHR 0x0B, CHR 0x0C, CHR 0x0D, CHR '' ''])"

definition trim :: "string \<Rightarrow> string" where
  "trim s = rev (dropWhile is_space (rev (dropWhile is_space s)))"

text \<open>\<^verbatim>\<open>s.includes(snippet)\<close>\<close>

definition js_includes :: "string \<Rightarrow> string \<Rightarrow> bool" where
  "js_includes s snippet = sublist snippet s"

text \<open>
  \<^verbatim>\<open>String(n)\<close> for a number: the decimal digits of an integer, with a minus sign when
  it is negative (what JavaScript prints for an integer of magnitude below \<open>10\<^sup>2\<^sup>1\<close>), and
  the names of the three values that are not finite.
\<close>

definition digit_char :: "nat \<Rightarrow> char" where
  "digit_char d = ''0123456789'' ! d"

fun nat_to_string :: "nat \<Rightarrow> string" where
  "nat_to_string n =
     (if n < 10 then [digit_char n] else nat_to_string (n div 10) @ [digit_char (n mod 10)])"

declare nat_to_string.simps [simp del]

definition int_to_string :: "int \<Rightarrow> string" where
  "int_to_string n =
     (if n < 0 then CHR ''-'' # nat_to_string (nat (- n)) else nat_to_string (nat n))"

fun number_to_string :: "jsnum \<Rightarrow> string" where
  "number_to_string (Fin n) = int_to_string n"
| "number_to_string NaN = ''NaN''"
| "number_to_string PosInf = ''Infinity''"
| "number_to_string NegInf = ''-Infinity''"

text \<open>
  \<^verbatim>\<open>String(v)\<close>. An object is taken to inherit \<^verbatim>\<open>Object.prototype.toString\<close>; arrays
  and objects with a \<^verbatim>\<open>toString\<close> of their own are outside this function.
\<close>

fun js_String :: "jsval \<Rightarrow> string" where
  "js_String Undefined = ''undefined''"
| "js_String Null = ''null''"
| "js_String (Bool b) = (if b then ''true'' else ''false'')"
| "js_String (Num x) = number_to_string x"
| "js_String (Str s) = s"
| "js_String (Ref a) = ''[object Object]''"

section \<open>The error candidate chain\<close>

text \<open>
  What one iteration of the loop of \<^verbatim>\<open>collectErrorCandidates\<close> pushes for an object:
  \<^verbatim>\<open>cause\<close>, \<^verbatim>\<open>reason\<close> and the elements of \<^verbatim>\<open>errors\<close> when it is an array, in this
  order.
\<close>

definition links :: "heap \<Rightarrow> jsval \<Rightarrow> jsval list" where
  "links h current =
     (if is_object current then
        [get_prop h current ''cause'', get_prop h current ''reason'']
        @ (case array_elems h (get_prop h current ''errors'') of
             None \<Rightarrow> [] | Some nested \<Rightarrow> nested)
      else [])"

definition pushes :: "heap \<Rightarrow> jsval set \<Rightarrow> jsval \<Rightarrow> jsval list" where
  "pushes h seen current = filter (\<lambda>v. js_truthy v \<and> v \<notin> seen) (links h current)"

text \<open>
  The \<^verbatim>\<open>while (queue.length > 0)\<close> loop, on the queue, the \<^verbatim>\<open>seen\<close> set and the
  candidates collected so far.
\<close>

function collect_loop :: "heap \<Rightarrow> jsval list \<Rightarrow> jsval set \<Rightarrow> jsval list \<Rightarrow> jsval list" where
  "collect_loop h [] seen candidates = candidates"
| "collect_loop h (current # queue) seen candidates =
     (if is_nullish current \<or> current \<in> seen then collect_loop h queue seen candidates
      else collect_loop h (queue @ pushes h (insert current seen) current)
             (insert current seen) (candidates @ [current]))"
  by pat_completeness auto

text \<open>
  Each iteration either marks an object of the store that was not seen before, or
  shortens the queue: a primitive and an address outside the store push nothing.
\<close>

definition unseen :: "heap \<Rightarrow> jsval set \<Rightarrow> addr set" where
  "unseen h seen = {a. a < length h \<and> Ref a \<notin> seen}"

lemma finite_unseen: "finite (unseen h seen)"
  by (simp add: unseen_def)

lemma pushes_outside:
  "\<not> (\<exists>a. current = Ref a \<and> a < length h) \<Longrightarrow> pushes h seen current = []"
  by (cases current) (auto simp: pushes_def links_def obj_at_def empty_obj_def)

lemma unseen_insert_less:
  assumes "a < length h" "Ref a \<notin> seen"
  shows "card (unseen h (insert (Ref a) seen)) < card (unseen h seen)"
proof -
  have "unseen h (insert (Ref a) seen) \<subset> unseen h seen"
    using assms by (auto simp: unseen_def)
  then show ?thesis
    by (rule psubset_card_mono [OF finite_unseen])
qed

lemma unseen_insert_other:
  "\<not> (\<exists>a. current = Ref a \<and> a < length h) \<Longrightarrow> unseen h (insert current seen) = unseen h seen"
  by (auto simp: unseen_def)

termination collect_loop
proof (relation "measures [\<lambda>(h, queue, seen, candidates). card (unseen h seen),
                           \<lambda>(h, queue, seen, candidates). length queue]", goal_cases)
  case 1
  show ?case by simp
next
  case (2 h current queue seen candidates)
  show ?case by simp
next
  case (3 h current queue seen candidates)
  then have fresh: "current \<notin> seen" by simp
  show ?case
  proof (cases "\<exists>a. current = Ref a \<and> a < length h")
    case True
    then show ?thesis
      using fresh unseen_insert_less by auto
  next
    case False
    then show ?thesis
      by (simp add: unseen_insert_other pushes_outside)
  qed
qed

definition collectErrorCandidates :: "heap \<Rightarrow> jsval \<Rightarrow> jsval list" where
  "collectErrorCandidates h err = collect_loop h [err] {} []"

text \<open>
  The same loop with a bound on the number of iterations: \<open>None\<close> when the bound is
  reached before the queue is empty.
\<close>

fun collect_fuel ::
  "nat \<Rightarrow> heap \<Rightarrow> jsval list \<Rightarrow> jsval set \<Rightarrow> jsval list \<Rightarrow> jsval list option" where
  "collect_fuel 0 h queue seen candidates = None"
| "collect_fuel (Suc n) h [] seen candidates = Some candidates"
| "collect_fuel (Suc n) h (current # queue) seen candidates =
     (if is_nullish current \<or> current \<in> seen then collect_fuel n h queue seen candidates
      else collect_fuel n h (queue @ pushes h (insert current seen) current)
             (insert current seen) (candidates @ [current]))"

text \<open>
  The chain of an error, as a relation: the root when it is not \<^verbatim>\<open>null\<close> or
  \<^verbatim>\<open>undefined\<close>, and every truthy \<^verbatim>\<open>cause\<close>, \<^verbatim>\<open>reason\<close> or element of an
  \<^verbatim>\<open>errors\<close> array of an object of the chain.
\<close>

inductive chain :: "heap \<Rightarrow> jsval \<Rightarrow> jsval \<Rightarrow> bool" for h :: heap and err :: jsval where
  chain_root: "\<not> is_nullish err \<Longrightarrow> chain h err err"
| chain_link: "chain h err c \<Longrightarrow> v \<in> set (links h c) \<Longrightarrow> js_truthy v \<Longrightarrow> chain h err v"

subsection \<open>Properties of the traversal\<close>

lemma collect_loop_distinct:
  "distinct candidates \<Longrightarrow> set candidates \<subseteq> seen \<Longrightarrow>
   distinct (collect_loop h queue seen candidates)"
  by (induction h queue seen candidates rule: collect_loop.induct) auto

lemma collect_fuel_enough:
  "\<exists>n. collect_fuel n h queue seen candidates = Some (collect_loop h queue seen candidates)"
proof (induction h queue seen candidates rule: collect_loop.induct)
  case (1 h seen candidates)
  have "collect_fuel (Suc 0) h [] seen candidates = Some (collect_loop h [] seen candidates)"
    by simp
  then show ?case by blast
next
  case (2 h current queue seen candidates)
  show ?case
  proof (cases "is_nullish current \<or> current \<in> seen")
    case True
    with 2(1) obtain n where
      "collect_fuel n h queue seen candidates = Some (collect_loop h queue seen candidates)"
      by blast
    with True have "collect_fuel (Suc n) h (current # queue) seen candidates
        = Some (collect_loop h (current # queue) seen candidates)"
      by simp
    then show ?thesis by blast
  next
    case False
    with 2(2) obtain n where
      "collect_fuel n h (queue @ pushes h (insert current seen) current)
             (insert current seen) (candidates @ [current])
       = Some (collect_loop h (queue @ pushes h (insert current seen) current)
             (insert current seen) (candidates @ [current]))"
      by blast
    with False have "collect_fuel (Suc n) h (current # queue) seen candidates
        = Some (collect_loop h (current # queue) seen candidates)"
      by simp
    then show ?thesis by blast
  qed
qed

lemma truthy_not_nullish: "js_truthy v \<Longrightarrow> \<not> is_nullish v"
  by (cases v) auto

text \<open>
  The invariant of the breadth-first walk: what was collected stays collected, every
  queued value that is not \<^verbatim>\<open>null\<close> or \<^verbatim>\<open>undefined\<close> ends up collected, and the
  links of every newly collected candidate are collected too.
\<close>

lemma collect_loop_inv:
  "seen = set candidates \<Longrightarrow>
   set candidates \<subseteq> set (collect_loop h queue seen candidates)
   \<and> (\<forall>v \<in> set queue. \<not> is_nullish v \<longrightarrow> v \<in> set (collect_loop h queue seen candidates))
   \<and> (\<forall>c \<in> set (collect_loop h queue seen candidates) - set candidates.
         \<forall>v \<in> set (links h c). js_truthy v \<longrightarrow> v \<in> set (collect_loop h queue seen candidates))"
proof (induction h queue seen candidates rule: collect_loop.induct)
  case (1 h seen candidates)
  then show ?case by simp
next
  case (2 h current queue seen candidates)
  show ?case
  proof (cases "is_nullish current \<or> current \<in> seen")
    case True
    with 2(1) 2(3) show ?thesis by auto
  next
    case False
    let ?R = "collect_loop h (queue @ pushes h (insert current seen) current)
             (insert current seen) (candidates @ [current])"
    have eq: "collect_loop h (current # queue) seen candidates = ?R"
      using False by simp
    have s: "insert current seen = set (candidates @ [current])"
      using 2(3) by simp
    note IH = 2(2) [OF False s]
    have a: "set candidates \<subseteq> set ?R" and cur: "current \<in> set ?R"
      using IH by auto
    have q: "\<forall>v \<in> set queue. \<not> is_nullish v \<longrightarrow> v \<in> set ?R"
      using IH by auto
    have p: "\<forall>v \<in> set (pushes h (insert current seen) current). v \<in> set ?R"
      using IH by (auto simp: pushes_def truthy_not_nullish)
    have curlinks: "\<forall>v \<in> set (links h current). js_truthy v \<longrightarrow> v \<in> set ?R"
    proof (intro ballI impI)
      fix v assume v: "v \<in> set (links h current)" "js_truthy v"
      show "v \<in> set ?R"
      proof (cases "v \<in> insert current seen")
        case True
        then show ?thesis using a cur 2(3) by auto
      next
        case False
        with v have "v \<in> set (pushes h (insert current seen) current)"
          by (simp add: pushes_def)
        with p show ?thesis by blast
      qed
    qed
    have closed: "\<forall>c \<in> set ?R - set candidates.
        \<forall>v \<in> set (links h c). js_truthy v \<longrightarrow> v \<in> set ?R"
    proof (intro ballI impI)
      fix c v
      assume c: "c \<in> set ?R - set candidates" and v: "v \<in> set (links h c)" "js_truthy v"
      show "v \<in> set ?R"
      proof (cases "c = current")
        case True
        with curlinks v show ?thesis by blast
      next
        case False
        with c have "c \<in> set ?R - set (candidates @ [current])" by simp
        with IH v show ?thesis by blast
      qed
    qed
    show ?thesis
      unfolding eq using a cur q closed by auto
  qed
qed

lemma chain_collected:
  assumes "chain h err c"
  shows "c \<in> set (collectErrorCandidates h err)"
  using assms
proof (induction rule: chain.induct)
  case chain_root
  then show ?case
    using collect_loop_inv [of "{}" "[]" h "[err]"] by (simp add: collectErrorCandidates_def)
next
  case (chain_link c v)
  then show ?case
    using collect_loop_inv [of "{}" "[]" h "[err]"] by (simp add: collectErrorCandidates_def)
qed

lemma collect_loop_sound:
  "(\<forall>v \<in> set queue. \<not> is_nullish v \<longrightarrow> chain h err v) \<Longrightarrow>
   (\<forall>c \<in> set candidates. chain h err c) \<Longrightarrow>
   c \<in> set (collect_loop h queue seen candidates) \<Longrightarrow> chain h err c"
proof (induction h queue seen candidates rule: collect_loop.induct)
  case (1 h seen candidates)
  then show ?case by simp
next
  case (2 h current queue seen candidates)
  show ?case
  proof (cases "is_nullish current \<or> current \<in> seen")
    case True
    with 2(1) [OF True] 2(3-5) show ?thesis by simp
  next
    case False
    then have cur: "chain h err current"
      using 2(3) by simp
    have "\<forall>v \<in> set (pushes h (insert current seen) current). chain h err v"
      using cur by (auto simp: pushes_def intro: chain_link)
    with 2(2) [OF False] 2(3-5) cur False show ?thesis
      by (auto simp: truthy_not_nullish)
  qed
qed

text \<open>The list holds exactly the values of the chain.\<close>

lemma collected_iff_chain: "c \<in> set (collectErrorCandidates h err) \<longleftrightarrow> chain h err c"
proof
  assume "c \<in> set (collectErrorCandidates h err)"
  then show "chain h err c"
    unfolding collectErrorCandidates_def
    by (rule collect_loop_sound [rotated 2]) (auto intro: chain_root)
next
  assume "chain h err c"
  then show "c \<in> set (collectErrorCandidates h err)"
    by (rule chain_collected)
qed

text \<open>
  C3. For every store and every input value, also when \<^verbatim>\<open>cause\<close>, \<^verbatim>\<open>reason\<close> and
  \<^verbatim>\<open>errors\<close> references are cyclic or repeated, \<^verbatim>\<open>collectErrorCandidates\<close>
  terminates (some number of iterations of its loop empties the queue and returns the
  list) and no value, so no object identity, occurs twice in the list it returns.
\<close>

theorem collectErrorCandidates_terminates_distinct:
  "(\<exists>n. collect_fuel n h [err] {} [] = Some (collectErrorCandidates h err))
   \<and> distinct (collectErrorCandidates h err)"
  unfolding collectErrorCandidates_def
  using collect_fuel_enough [of h "[err]" "{}" "[]"] collect_loop_distinct [of "[]" "{}" h "[err]"]
  by simp

section \<open>The network error classifier\<close>

text \<open>
  \<^verbatim>\<open>isRecoverableTelegramNetworkError\<close> and its helpers. \<^verbatim>\<open>extractErrorCode\<close> and
  \<^verbatim>\<open>formatErrorMessage\<close> are imported from \<^verbatim>\<open>src/infra/errors.ts\<close>; the functions
  below take them as parameters, and the theorems hold for every such pair.
\<close>

definition RECOVERABLE_ERROR_CODES :: "string list" where
  "RECOVERABLE_ERROR_CODES =
     [''ECONNRESET'', ''ECONNREFUSED'', ''EPIPE'', ''ETIMEDOUT'', ''ESOCKETTIMEDOUT'',
      ''ENETUNREACH'', ''EHOSTUNREACH'', ''ENOTFOUND'', ''EAI_AGAIN'',
      ''UND_ERR_CONNECT_TIMEOUT'', ''UND_ERR_HEADERS_TIMEOUT'', ''UND_ERR_BODY_TIMEOUT'',
      ''UND_ERR_SOCKET'', ''UND_ERR_ABORTED'', ''ECONNABORTED'', ''ERR_NETWORK'']"

definition RECOVERABLE_ERROR_NAMES :: "string list" where
  "RECOVERABLE_ERROR_NAMES =
     [''AbortError'', ''TimeoutError'', ''ConnectTimeoutError'', ''HeadersTimeoutError'',
      ''BodyTimeoutError'']"

definition RECOVERABLE_MESSAGE_SNIPPETS :: "string list" where
  "RECOVERABLE_MESSAGE_SNIPPETS =
     [''fetch failed'', ''typeerror: fetch failed'', ''undici'', ''network error'',
      ''network request'', ''client network socket disconnected'', ''socket hang up'',
      ''getaddrinfo'']"

text \<open>\<^verbatim>\<open>code?.trim().toUpperCase() ?? ""\<close>\<close>

definition normalizeCode :: "string option \<Rightarrow> string" where
  "normalizeCode code = (case code of None \<Rightarrow> [] | Some c \<Rightarrow> toUpperCase (trim c))"

definition getErrorName :: "heap \<Rightarrow> jsval \<Rightarrow> string" where
  "getErrorName h err =
     (if \<not> js_truthy err \<or> \<not> is_object err then []
      else if has_prop h err ''name'' then js_String (get_prop h err ''name'') else [])"

type_synonym code_extractor = "heap \<Rightarrow> jsval \<Rightarrow> string option"
type_synonym message_formatter = "heap \<Rightarrow> jsval \<Rightarrow> string"

text \<open>
  The part of \<^verbatim>\<open>getErrorCode\<close> after \<^verbatim>\<open>if (direct) return direct\<close>: the
  \<^verbatim>\<open>errno\<close> of an object, when it is a string or a number.
\<close>

definition errno_code :: "heap \<Rightarrow> jsval \<Rightarrow> string option" where
  "errno_code h err =
     (if \<not> js_truthy err \<or> \<not> is_object err then None
      else (case get_prop h err ''errno'' of
              Str s \<Rightarrow> Some s
            | Num n \<Rightarrow> Some (number_to_string n)
            | _ \<Rightarrow> None))"

definition getErrorCode :: "code_extractor \<Rightarrow> heap \<Rightarrow> jsval \<Rightarrow> string option" where
  "getErrorCode extractErrorCode h err =
     (case extractErrorCode h err of
        Some direct \<Rightarrow> if direct \<noteq> [] then Some direct else errno_code h err
      | None \<Rightarrow> errno_code h err)"

datatype TelegramNetworkErrorContext = Polling | Send | Webhook | Unknown

record classify_options =
  context_of :: "TelegramNetworkErrorContext option"
  allowMessageMatch :: "bool option"

text \<open>The three checks the loop makes on a candidate, in the order it makes them.\<close>

definition code_signal :: "code_extractor \<Rightarrow> heap \<Rightarrow> jsval \<Rightarrow> bool" where
  "code_signal extractErrorCode h candidate =
     (let code = normalizeCode (getErrorCode extractErrorCode h candidate)
      in code \<noteq> [] \<and> code \<in> set RECOVERABLE_ERROR_CODES)"

definition name_signal :: "heap \<Rightarrow> jsval \<Rightarrow> bool" where
  "name_signal h candidate =
     (let name = getErrorName h candidate
      in name \<noteq> [] \<and> name \<in> set RECOVERABLE_ERROR_NAMES)"

definition message_signal :: "message_formatter \<Rightarrow> heap \<Rightarrow> jsval \<Rightarrow> bool" where
  "message_signal formatErrorMessage h candidate =
     (let message = toLowerCase (formatErrorMessage h candidate)
      in message \<noteq> [] \<and> list_ex (js_includes message) RECOVERABLE_MESSAGE_SNIPPETS)"

text \<open>The \<^verbatim>\<open>for\<close> loop over the candidates, which returns at the first match.\<close>

fun scan_candidates ::
  "code_extractor \<Rightarrow> message_formatter \<Rightarrow> heap \<Rightarrow> bool \<Rightarrow> jsval list \<Rightarrow> bool" where
  "scan_candidates extractErrorCode formatErrorMessage h allow [] = False"
| "scan_candidates extractErrorCode formatErrorMessage h allow (candidate # rest) =
     (if code_signal extractErrorCode h candidate then True
      else if name_signal h candidate then True
      else if allow \<and> message_signal formatErrorMessage h candidate then True
      else scan_candidates extractErrorCode formatErrorMessage h allow rest)"

definition isRecoverableTelegramNetworkError ::
  "code_extractor \<Rightarrow> message_formatter \<Rightarrow> heap \<Rightarrow> jsval \<Rightarrow> classify_options \<Rightarrow> bool" where
  "isRecoverableTelegramNetworkError extractErrorCode formatErrorMessage h err options =
     (if \<not> js_truthy err then False
      else
        let allow = (case allowMessageMatch options of
                       Some b \<Rightarrow> b
                     | None \<Rightarrow> context_of options \<noteq> Some Send)
        in scan_candidates extractErrorCode formatErrorMessage h allow
             (collectErrorCandidates h err))"

text \<open>
  Modelled from the spec: \<^verbatim>\<open>extractErrorCode\<close> of \<^verbatim>\<open>src/infra/errors.ts\<close>, which is
  not among the sources. Section 6 of the specification has generic network errors expose
  a string \<^verbatim>\<open>code\<close>: the extractor returns the \<^verbatim>\<open>code\<close> property of an object when
  it is a string. It instantiates the parameter at the concrete inputs below.
\<close>

definition extractErrorCode_spec :: code_extractor where
  "extractErrorCode_spec h err = (case get_prop h err ''code'' of Str s \<Rightarrow> Some s | _ \<Rightarrow> None)"

text \<open>
  Modelled from the spec: \<^verbatim>\<open>formatErrorMessage\<close> of \<^verbatim>\<open>src/infra/errors.ts\<close>, which
  is not among the sources. The specification speaks of the message of an error: the
  formatter returns a string as it is and the \<^verbatim>\<open>message\<close> property of an object when it
  is a string. It instantiates the parameter at the concrete inputs below.
\<close>

definition formatErrorMessage_spec :: message_formatter where
  "formatErrorMessage_spec h err =
     (case err of
        Str s \<Rightarrow> s
      | _ \<Rightarrow> (case get_prop h err ''message'' of Str s \<Rightarrow> s | _ \<Rightarrow> []))"

subsection \<open>Example stores\<close>

text \<open>A plain object with the given properties.\<close>

definition obj :: "(string \<times> jsval) list \<Rightarrow> jsobj" where
  "obj ps = \<lparr>props = ps, elems = None, classes = []\<rparr>"

text \<open>
  An error \<^verbatim>\<open>{ message: "network error occurred" }\<close>, with no name, code or cause.
\<close>

definition heap_msg :: heap where
  "heap_msg = [obj [(''message'', Str ''network error occurred'')]]"

text \<open>
  An outer error with no code whose \<^verbatim>\<open>cause\<close> carries the code \<^verbatim>\<open>ECONNRESET\<close> and
  refers back to the outer error.
\<close>

definition heap_cause :: heap where
  "heap_cause =
     [obj [(''message'', Str ''request failed''), (''cause'', Ref 1)],
      obj [(''code'', Str ''ECONNRESET''), (''cause'', Ref 0)]]"

text \<open>An error whose only code is the numeric \<^verbatim>\<open>errno\<close> -104.\<close>

definition heap_errno :: heap where
  "heap_errno = [obj [(''errno'', Num (Fin (- 104)))]]"

lemma cands_msg: "collectErrorCandidates heap_msg (Ref 0) = [Ref 0]"
  by (simp add: collectErrorCandidates_def heap_msg_def pushes_def links_def obj_at_def obj_def)

subsection \<open>Properties of the classifier\<close>

lemma scan_candidates_iff:
  "scan_candidates ex fmt h allow cs =
     list_ex (\<lambda>c. code_signal ex h c \<or> name_signal h c \<or> (allow \<and> message_signal fmt h c)) cs"
  by (induction cs) auto

text \<open>
  C1. Take a truthy error value none of whose candidates carries a recoverable code or a
  recoverable name, while the formatted message of some candidate contains one of the
  transient-sounding snippets. With \<^verbatim>\<open>allowMessageMatch\<close> left unset,
  \<^verbatim>\<open>isRecoverableTelegramNetworkError\<close> returns true when the context is
  \<^verbatim>\<open>"polling"\<close>, \<^verbatim>\<open>"webhook"\<close>, \<^verbatim>\<open>"unknown"\<close> or absent, and false when it is
  \<^verbatim>\<open>"send"\<close>; with \<^verbatim>\<open>allowMessageMatch\<close> a boolean, it returns that boolean, whatever
  the context.
\<close>

theorem message_match_gated_by_context:
  assumes "js_truthy err"
    and "\<forall>c \<in> set (collectErrorCandidates h err). \<not> code_signal ex h c \<and> \<not> name_signal h c"
    and "\<exists>c \<in> set (collectErrorCandidates h err). message_signal fmt h c"
  shows "isRecoverableTelegramNetworkError ex fmt h err \<lparr>context_of = ctx, allowMessageMatch = None\<rparr>
           = (ctx \<noteq> Some Send)
       \<and> isRecoverableTelegramNetworkError ex fmt h err \<lparr>context_of = ctx, allowMessageMatch = Some b\<rparr>
           = b"
  using assms
  by (auto simp: isRecoverableTelegramNetworkError_def scan_candidates_iff list_ex_iff)

lemma digit_char_in: "d < 10 \<Longrightarrow> digit_char d \<in> set ''0123456789''"
proof -
  assume "d < 10"
  then have "d \<in> {0, 1, 2, 3, 4, 5, 6, 7, 8, 9}" by auto
  then show ?thesis by (auto simp: digit_char_def)
qed

lemma nat_to_string_chars: "set (nat_to_string n) \<subseteq> set ''0123456789''"
proof (induction n rule: nat_to_string.induct)
  case (1 n)
  show ?case
  proof (cases "n < 10")
    case True
    then show ?thesis
      using digit_char_in [of n] by (subst nat_to_string.simps) simp
  next
    case False
    have "n mod 10 < 10" by simp
    then have "digit_char (n mod 10) \<in> set ''0123456789''" by (rule digit_char_in)
    with False 1 show ?thesis
      by (subst nat_to_string.simps) simp
  qed
qed

lemma nat_to_string_no_e:
  "CHR ''e'' \<notin> set (nat_to_string n)" "CHR ''E'' \<notin> set (nat_to_string n)"
proof -
  have "CHR ''e'' \<notin> set ''0123456789''" "CHR ''E'' \<notin> set ''0123456789''"
    by simp_all
  then show "CHR ''e'' \<notin> set (nat_to_string n)" "CHR ''E'' \<notin> set (nat_to_string n)"
    using nat_to_string_chars [of n] by blast+
qed

lemma number_to_string_no_e:
  "CHR ''e'' \<notin> set (number_to_string x)" "CHR ''E'' \<notin> set (number_to_string x)"
  by (cases x; simp add: int_to_string_def nat_to_string_no_e)+

lemma set_trim: "set (trim s) \<subseteq> set s"
proof -
  have "set (dropWhile is_space (rev (dropWhile is_space s))) \<subseteq> set (dropWhile is_space s)"
    by (auto dest: set_dropWhileD)
  also have "\<dots> \<subseteq> set s"
    by (auto dest: set_dropWhileD)
  finally show ?thesis
    by (simp add: trim_def)
qed

lemma upper_char_E: "upper_char c = CHR ''E'' \<Longrightarrow> c = CHR ''e'' \<or> c = CHR ''E''"
  by (simp add: upper_char_def lower_letters_def upper_letters_def split: if_splits)

lemma codes_have_E: "code \<in> set RECOVERABLE_ERROR_CODES \<Longrightarrow> CHR ''E'' \<in> set code"
  by (auto simp: RECOVERABLE_ERROR_CODES_def)

lemma numeric_code_not_recoverable:
  "normalizeCode (Some (number_to_string x)) \<notin> set RECOVERABLE_ERROR_CODES"
proof
  assume "normalizeCode (Some (number_to_string x)) \<in> set RECOVERABLE_ERROR_CODES"
  then have "CHR ''E'' \<in> set (normalizeCode (Some (number_to_string x)))"
    by (rule codes_have_E)
  then obtain c where c: "c \<in> set (trim (number_to_string x))" "upper_char c = CHR ''E''"
    by (auto simp: normalizeCode_def toUpperCase_def)
  from c(1) have "c \<in> set (number_to_string x)"
    using set_trim by blast
  moreover from c(2) have "c = CHR ''e'' \<or> c = CHR ''E''"
    by (rule upper_char_E)
  ultimately show False
    using number_to_string_no_e [of x] by blast
qed

text \<open>
  C10. For a candidate object for which \<^verbatim>\<open>extractErrorCode\<close> reports no code (nothing,
  or the empty string) and whose \<^verbatim>\<open>errno\<close> is a number, \<^verbatim>\<open>getErrorCode\<close> returns the
  decimal string of that number, and the code check of the classifier fails for the
  candidate: after trimming and upper-casing, the string is not in the set of recoverable
  codes, all of whose entries are code names containing the letter E.
\<close>

theorem numeric_errno_not_code_signal:
  assumes "ex h (Ref a) = None \<or> ex h (Ref a) = Some []"
    and "get_prop h (Ref a) ''errno'' = Num x"
  shows "getErrorCode ex h (Ref a) = Some (number_to_string x)
       \<and> \<not> code_signal ex h (Ref a)"
proof -
  have code: "getErrorCode ex h (Ref a) = Some (number_to_string x)"
    using assms by (auto simp: getErrorCode_def errno_code_def)
  then show ?thesis
    using numeric_code_not_recoverable [of x] by (simp add: code_signal_def)
qed

text \<open>
  C2. When the chain of an error object (what is reached through \<^verbatim>\<open>cause\<close>,
  \<^verbatim>\<open>reason\<close> and the elements of \<^verbatim>\<open>errors\<close> arrays) contains a candidate whose error
  code, trimmed and in upper case, is in the set of recoverable codes, the error is
  classified recoverable, in every context and for every \<^verbatim>\<open>allowMessageMatch\<close>. The
  error code of a candidate is what \<^verbatim>\<open>getErrorCode\<close> returns: the code that
  \<^verbatim>\<open>extractErrorCode\<close> reports, or else the candidate's string \<^verbatim>\<open>errno\<close> or the
  decimal string of its numeric \<^verbatim>\<open>errno\<close>.
\<close>

theorem recoverable_code_in_chain:
  assumes "chain h (Ref a) c"
    and "normalizeCode (getErrorCode ex h c) \<in> set RECOVERABLE_ERROR_CODES"
  shows "isRecoverableTelegramNetworkError ex fmt h (Ref a) options"
proof -
  have "[] \<notin> set RECOVERABLE_ERROR_CODES"
    by (simp add: RECOVERABLE_ERROR_CODES_def)
  with assms(2) have "code_signal ex h c"
    by (auto simp: code_signal_def)
  moreover have "c \<in> set (collectErrorCandidates h (Ref a))"
    using assms(1) by (rule chain_collected)
  ultimately show ?thesis
    by (auto simp: isRecoverableTelegramNetworkError_def scan_candidates_iff list_ex_iff)
qed

text \<open>
  C9. For every falsy input (\<^verbatim>\<open>null\<close>, \<^verbatim>\<open>undefined\<close>, the empty string, 0,
  \<^verbatim>\<open>NaN\<close>, \<^verbatim>\<open>false\<close>) and every options value,
  \<^verbatim>\<open>isRecoverableTelegramNetworkError\<close> returns false.
\<close>

theorem falsy_not_recoverable:
  "\<not> js_truthy err \<Longrightarrow> \<not> isRecoverableTelegramNetworkError ex fmt h err options"
  by (simp add: isRecoverableTelegramNetworkError_def)

theorem message_match_gated_by_context_witness:
  "isRecoverableTelegramNetworkError extractErrorCode_spec formatErrorMessage_spec heap_msg (Ref 0)
     \<lparr>context_of = Some Polling, allowMessageMatch = None\<rparr>
   \<and> \<not> isRecoverableTelegramNetworkError extractErrorCode_spec formatErrorMessage_spec heap_msg (Ref 0)
     \<lparr>context_of = Some Send, allowMessageMatch = None\<rparr>
   \<and> isRecoverableTelegramNetworkError extractErrorCode_spec formatErrorMessage_spec heap_msg (Ref 0)
     \<lparr>context_of = Some Send, allowMessageMatch = Some True\<rparr>
   \<and> \<not> isRecoverableTelegramNetworkError extractErrorCode_spec formatErrorMessage_spec heap_msg (Ref 0)
     \<lparr>context_of = Some Polling, allowMessageMatch = Some False\<rparr>"
proof -
  have t: "js_truthy (Ref 0)" by simp
  have no: "\<forall>c \<in> set (collectErrorCandidates heap_msg (Ref 0)).
      \<not> code_signal extractErrorCode_spec heap_msg c \<and> \<not> name_signal heap_msg c"
    unfolding cands_msg
    by (simp add: code_signal_def name_signal_def getErrorCode_def errno_code_def
        extractErrorCode_spec_def getErrorName_def normalizeCode_def heap_msg_def obj_at_def obj_def)
  have "toLowerCase ''network error occurred'' = ''network error occurred''"
    by (simp add: toLowerCase_def lower_char_def lower_letters_def upper_letters_def)
  moreover have "js_includes ''network error occurred'' ''network error''"
    by (simp add: js_includes_def sublist_code)
  ultimately have msg: "\<exists>c \<in> set (collectErrorCandidates heap_msg (Ref 0)).
      message_signal formatErrorMessage_spec heap_msg c"
    unfolding cands_msg
    by (simp add: message_signal_def formatErrorMessage_spec_def heap_msg_def
        obj_at_def obj_def RECOVERABLE_MESSAGE_SNIPPETS_def)
  show ?thesis
    using message_match_gated_by_context [OF t no msg, of "Some Polling" False]
      message_match_gated_by_context [OF t no msg, of "Some Send" True]
    by simp
qed

theorem recoverable_code_in_chain_witness:
  "chain heap_cause (Ref 0) (Ref 1)
   \<and> getErrorCode extractErrorCode_spec heap_cause (Ref 0) = None
   \<and> normalizeCode (getErrorCode extractErrorCode_spec heap_cause (Ref 1))
        \<in> set RECOVERABLE_ERROR_CODES
   \<and> isRecoverableTelegramNetworkError extractErrorCode_spec formatErrorMessage_spec heap_cause
        (Ref 0) \<lparr>context_of = Some Send, allowMessageMatch = None\<rparr>"
proof -
  have "chain heap_cause (Ref 0) (Ref 0)"
    by (rule chain_root) simp
  moreover have "Ref 1 \<in> set (links heap_cause (Ref 0))"
    by (simp add: links_def heap_cause_def obj_at_def obj_def)
  ultimately have c: "chain heap_cause (Ref 0) (Ref 1)"
    by (rule chain_link) simp
  have outer: "getErrorCode extractErrorCode_spec heap_cause (Ref 0) = None"
    by (simp add: getErrorCode_def errno_code_def extractErrorCode_spec_def heap_cause_def
        obj_at_def obj_def)
  have "getErrorCode extractErrorCode_spec heap_cause (Ref 1) = Some ''ECONNRESET''"
    by (simp add: getErrorCode_def errno_code_def extractErrorCode_spec_def heap_cause_def
        obj_at_def obj_def)
  moreover have "normalizeCode (Some ''ECONNRESET'') = ''ECONNRESET''"
    by (simp add: normalizeCode_def toUpperCase_def trim_def is_space_def upper_char_def
        lower_letters_def upper_letters_def)
  ultimately have code: "normalizeCode (getErrorCode extractErrorCode_spec heap_cause (Ref 1))
        \<in> set RECOVERABLE_ERROR_CODES"
    by (simp add: RECOVERABLE_ERROR_CODES_def)
  show ?thesis
    using c outer code recoverable_code_in_chain [OF c code] by simp
qed

theorem falsy_not_recoverable_witness:
  "\<not> isRecoverableTelegramNetworkError extractErrorCode_spec formatErrorMessage_spec heap_msg Null
        \<lparr>context_of = Some Polling, allowMessageMatch = Some True\<rparr>
   \<and> \<not> isRecoverableTelegramNetworkError extractErrorCode_spec formatErrorMessage_spec heap_msg Undefined
        \<lparr>context_of = None, allowMessageMatch = None\<rparr>
   \<and> \<not> isRecoverableTelegramNetworkError extractErrorCode_spec formatErrorMessage_spec heap_msg (Str [])
        \<lparr>context_of = Some Webhook, allowMessageMatch = None\<rparr>
   \<and> \<not> isRecoverableTelegramNetworkError extractErrorCode_spec formatErrorMessage_spec heap_msg (Num (Fin 0))
        \<lparr>context_of = Some Unknown, allowMessageMatch = None\<rparr>
   \<and> \<not> isRecoverableTelegramNetworkError extractErrorCode_spec formatErrorMessage_spec heap_msg (Bool False)
        \<lparr>context_of = Some Send, allowMessageMatch = Some True\<rparr>"
  using falsy_not_recoverable [of Null] falsy_not_recoverable [of Undefined]
    falsy_not_recoverable [of "Str []"] falsy_not_recoverable [of "Num (Fin 0)"]
    falsy_not_recoverable [of "Bool False"]
  by simp

theorem numeric_errno_not_code_signal_witness:
  "extractErrorCode_spec heap_errno (Ref 0) = None
   \<and> get_prop heap_errno (Ref 0) ''errno'' = Num (Fin (- 104))
   \<and> getErrorCode extractErrorCode_spec heap_errno (Ref 0) = Some ''-104''
   \<and> \<not> code_signal extractErrorCode_spec heap_errno (Ref 0)"
proof -
  have a: "extractErrorCode_spec heap_errno (Ref 0) = None"
    by (simp add: extractErrorCode_spec_def heap_errno_def obj_at_def obj_def)
  have b: "get_prop heap_errno (Ref 0) ''errno'' = Num (Fin (- 104))"
    by (simp add: heap_errno_def obj_at_def obj_def)
  have s: "number_to_string (Fin (- 104)) = ''-104''"
    by (simp add: int_to_string_def nat_to_string.simps digit_char_def)
  show ?thesis
    using a b s numeric_errno_not_code_signal [of extractErrorCode_spec heap_errno 0, OF disjI1 [OF a] b]
    by simp
qed

section \<open>The rate-limit wait of a Telegram error\<close>

text \<open>\<^verbatim>\<open>x * 1000\<close> on a number, as the exact product of an integer\<close>

fun js_times_1000 :: "jsnum \<Rightarrow> jsnum" where
  "js_times_1000 (Fin n) = Fin (n * 1000)"
| "js_times_1000 NaN = NaN"
| "js_times_1000 PosInf = PosInf"
| "js_times_1000 NegInf = NegInf"

text \<open>\<^verbatim>\<open>v?.key\<close>\<close>

definition opt_get :: "heap \<Rightarrow> jsval \<Rightarrow> string \<Rightarrow> jsval" where
  "opt_get h v key = (if is_nullish v then Undefined else get_prop h v key)"

text \<open>
  \<^verbatim>\<open>typeof candidate === "number" && Number.isFinite(candidate) ? candidate * 1000 : undefined\<close>
\<close>

definition finite_times_1000 :: "jsval \<Rightarrow> jsnum option" where
  "finite_times_1000 candidate =
     (case candidate of Num (Fin n) \<Rightarrow> Some (js_times_1000 (Fin n)) | _ \<Rightarrow> None)"

text \<open>
  \<^verbatim>\<open>getTelegramRetryAfterMs\<close>: the three shapes are probed in the order of the
  conditional expression of the source.
\<close>

definition getTelegramRetryAfterMs :: "heap \<Rightarrow> jsval \<Rightarrow> jsnum option" where
  "getTelegramRetryAfterMs h err =
     (if \<not> js_truthy err \<or> \<not> is_object err then None
      else
        let candidate =
          (if has_prop h err ''parameters'' \<and> js_truthy (get_prop h err ''parameters'')
               \<and> is_object (get_prop h err ''parameters'')
           then get_prop h (get_prop h err ''parameters'') ''retry_after''
           else if has_prop h err ''response'' \<and> js_truthy (get_prop h err ''response'')
               \<and> is_object (get_prop h err ''response'')
               \<and> has_prop h (get_prop h err ''response'') ''parameters''
           then opt_get h (get_prop h (get_prop h err ''response'') ''parameters'') ''retry_after''
           else if has_prop h err ''error'' \<and> js_truthy (get_prop h err ''error'')
               \<and> is_object (get_prop h err ''error'')
               \<and> has_prop h (get_prop h err ''error'') ''parameters''
           then opt_get h (get_prop h (get_prop h err ''error'') ''parameters'') ''retry_after''
           else Undefined)
        in finite_times_1000 candidate)"

text \<open>
  The selection rule as the specification words it: of the three shapes, direct
  \<^verbatim>\<open>parameters\<close>, \<^verbatim>\<open>response.parameters\<close> and \<^verbatim>\<open>error.parameters\<close>, the first that
  is present as an object gives the candidate \<^verbatim>\<open>retry_after\<close>.
\<close>

definition shapes :: "heap \<Rightarrow> jsval \<Rightarrow> jsval list" where
  "shapes h err =
     [get_prop h err ''parameters'',
      get_prop h (get_prop h err ''response'') ''parameters'',
      get_prop h (get_prop h err ''error'') ''parameters'']"

definition first_shape_candidate :: "heap \<Rightarrow> jsval \<Rightarrow> jsval" where
  "first_shape_candidate h err =
     (case filter is_object (shapes h err) of
        [] \<Rightarrow> Undefined
      | p # _ \<Rightarrow> get_prop h p ''retry_after'')"

definition first_shape_retry_after_ms :: "heap \<Rightarrow> jsval \<Rightarrow> jsnum option" where
  "first_shape_retry_after_ms h err =
     (case first_shape_candidate h err of Num (Fin n) \<Rightarrow> Some (Fin (n * 1000)) | _ \<Rightarrow> None)"

text \<open>
  The one situation in which the function does not look at all three shapes: direct
  \<^verbatim>\<open>parameters\<close> is not an object, and \<^verbatim>\<open>response\<close> is an object that has a
  \<^verbatim>\<open>parameters\<close> property which is not an object. The second branch of the conditional
  is taken on \<^verbatim>\<open>"parameters" in err.response\<close>, and \<^verbatim>\<open>error\<close> is not consulted.
\<close>

definition response_shadows :: "heap \<Rightarrow> jsval \<Rightarrow> bool" where
  "response_shadows h err =
     (\<not> is_object (get_prop h err ''parameters'')
      \<and> is_object (get_prop h err ''response'')
      \<and> has_prop h (get_prop h err ''response'') ''parameters''
      \<and> \<not> is_object (get_prop h (get_prop h err ''response'') ''parameters''))"

text \<open>
  \<^verbatim>\<open>{ response: { parameters: null }, error: { parameters: { retry_after: 5 } } }\<close>
\<close>

definition heap_null_parameters :: heap where
  "heap_null_parameters =
     [obj [(''response'', Ref 1), (''error'', Ref 2)],
      obj [(''parameters'', Null)],
      obj [(''parameters'', Ref 3)],
      obj [(''retry_after'', Num (Fin 5))]]"

text \<open>\<^verbatim>\<open>{ error: { parameters: null } }\<close>\<close>

definition heap_error_null :: heap where
  "heap_error_null = [obj [(''error'', Ref 1)], obj [(''parameters'', Null)]]"

text \<open>
  \<^verbatim>\<open>{ response: { status: 429 }, error: { parameters: { retry_after: 5 } } }\<close>
\<close>

definition heap_error_parameters :: heap where
  "heap_error_parameters =
     [obj [(''response'', Ref 1), (''error'', Ref 2)],
      obj [(''status'', Num (Fin 429))],
      obj [(''parameters'', Ref 3)],
      obj [(''retry_after'', Num (Fin 5))]]"

lemma is_object_get_prop:
  "is_object (get_prop h v key) \<Longrightarrow> has_prop h v key \<and> js_truthy (get_prop h v key) \<and> is_object v"
  by (cases v; cases "get_prop h v key") (auto split: option.splits)

lemma get_prop_absent: "\<not> (is_object v \<and> has_prop h v key) \<Longrightarrow> get_prop h v key = Undefined"
  by (cases v) (auto split: option.splits)

text \<open>
  C6, as stated, fails: the error below has no direct \<^verbatim>\<open>parameters\<close>, its
  \<^verbatim>\<open>response.parameters\<close> is \<^verbatim>\<open>null\<close> and its \<^verbatim>\<open>error.parameters\<close> is an object
  with \<^verbatim>\<open>retry_after\<close> 5. The first shape present as an object is
  \<^verbatim>\<open>error.parameters\<close>, which gives 5000; the function returns \<^verbatim>\<open>undefined\<close>, because
  it selects \<^verbatim>\<open>response\<close> as soon as that object has a \<^verbatim>\<open>parameters\<close> property.
\<close>

theorem retry_after_first_shape_counterexample:
  "getTelegramRetryAfterMs heap_null_parameters (Ref 0) = None
   \<and> first_shape_retry_after_ms heap_null_parameters (Ref 0) = Some (Fin 5000)"
  by (simp add: getTelegramRetryAfterMs_def first_shape_retry_after_ms_def
      first_shape_candidate_def shapes_def finite_times_1000_def opt_get_def
      heap_null_parameters_def obj_at_def obj_def)

text \<open>
  C6, amended. For every input, \<^verbatim>\<open>getTelegramRetryAfterMs\<close> returns
  \<^verbatim>\<open>retry_after * 1000\<close> when the \<^verbatim>\<open>retry_after\<close> of the first shape present as an
  object (direct \<^verbatim>\<open>parameters\<close>, then \<^verbatim>\<open>response.parameters\<close>, then
  \<^verbatim>\<open>error.parameters\<close>) is a finite number, and \<^verbatim>\<open>undefined\<close> otherwise, also for
  inputs that are not objects; with one exception: when direct \<^verbatim>\<open>parameters\<close> is not
  an object and \<^verbatim>\<open>response\<close> is an object with a \<^verbatim>\<open>parameters\<close> property that is not
  an object, \<^verbatim>\<open>error.parameters\<close> is not consulted and the result is \<^verbatim>\<open>undefined\<close>.
\<close>

theorem retry_after_first_shape:
  "getTelegramRetryAfterMs h err =
     (if response_shadows h err then None else first_shape_retry_after_ms h err)"
proof (cases "js_truthy err \<and> is_object err")
  case False
  then have "shapes h err = [Undefined, Undefined, Undefined]"
    and "get_prop h err ''response'' = Undefined"
    by (cases err; auto simp: shapes_def)+
  with False show ?thesis
    by (auto simp: getTelegramRetryAfterMs_def first_shape_retry_after_ms_def
        first_shape_candidate_def response_shadows_def)
next
  case True
  let ?p = "get_prop h err ''parameters''"
  let ?r = "get_prop h err ''response''"
  let ?e = "get_prop h err ''error''"
  show ?thesis
  proof (cases "is_object ?p")
    case p: True
    then show ?thesis
      using True is_object_get_prop [of h err "''parameters''"]
      by (simp add: getTelegramRetryAfterMs_def first_shape_retry_after_ms_def
          first_shape_candidate_def shapes_def finite_times_1000_def response_shadows_def
          split: jsval.splits jsnum.splits)
  next
    case p: False
    show ?thesis
    proof (cases "is_object ?r \<and> has_prop h ?r ''parameters''")
      case r: True
      have sel: "getTelegramRetryAfterMs h err
          = finite_times_1000 (opt_get h (get_prop h ?r ''parameters'') ''retry_after'')"
        using True p r is_object_get_prop [of h err "''response''"]
        by (simp add: getTelegramRetryAfterMs_def)
      show ?thesis
      proof (cases "is_object (get_prop h ?r ''parameters'')")
        case o: True
        then have "\<not> is_nullish (get_prop h ?r ''parameters'')"
          by (cases "get_prop h ?r ''parameters''") auto
        with p r o show ?thesis
          unfolding sel
          by (simp add: first_shape_retry_after_ms_def first_shape_candidate_def shapes_def
              opt_get_def finite_times_1000_def response_shadows_def
              split: jsval.splits jsnum.splits)
      next
        case o: False
        then have "opt_get h (get_prop h ?r ''parameters'') ''retry_after'' = Undefined"
          by (cases "get_prop h ?r ''parameters''") (auto simp: opt_get_def)
        with p r o show ?thesis
          unfolding sel by (simp add: finite_times_1000_def response_shadows_def)
      qed
    next
      case r: False
      then have ru: "get_prop h ?r ''parameters'' = Undefined"
        by (rule get_prop_absent)
      from r have ns: "\<not> response_shadows h err"
        by (auto simp: response_shadows_def)
      show ?thesis
      proof (cases "is_object ?e \<and> has_prop h ?e ''parameters''")
        case e: True
        have sel: "getTelegramRetryAfterMs h err
            = finite_times_1000 (opt_get h (get_prop h ?e ''parameters'') ''retry_after'')"
          using True p r e is_object_get_prop [of h err "''error''"]
          by (auto simp: getTelegramRetryAfterMs_def)
        show ?thesis
        proof (cases "is_object (get_prop h ?e ''parameters'')")
          case o: True
          then have "\<not> is_nullish (get_prop h ?e ''parameters'')"
            by (cases "get_prop h ?e ''parameters''") auto
          with p ru o ns show ?thesis
            unfolding sel
            by (simp add: first_shape_retry_after_ms_def first_shape_candidate_def shapes_def
                opt_get_def finite_times_1000_def split: jsval.splits jsnum.splits)
        next
          case o: False
          then have "opt_get h (get_prop h ?e ''parameters'') ''retry_after'' = Undefined"
            by (cases "get_prop h ?e ''parameters''") (auto simp: opt_get_def)
          with p ru o ns show ?thesis
            unfolding sel
            by (simp add: first_shape_retry_after_ms_def first_shape_candidate_def shapes_def
                finite_times_1000_def)
        qed
      next
        case e: False
        then have eu: "get_prop h ?e ''parameters'' = Undefined"
          by (rule get_prop_absent)
        with True p r ru e ns show ?thesis
          by (auto simp: getTelegramRetryAfterMs_def first_shape_retry_after_ms_def
              first_shape_candidate_def shapes_def finite_times_1000_def)
      qed
    qed
  qed
qed

theorem retry_after_first_shape_witness:
  "\<not> response_shadows heap_error_parameters (Ref 0)
   \<and> first_shape_retry_after_ms heap_error_parameters (Ref 0) = Some (Fin 5000)
   \<and> getTelegramRetryAfterMs heap_error_parameters (Ref 0) = Some (Fin 5000)
   \<and> \<not> response_shadows heap_error_null (Ref 0)
   \<and> getTelegramRetryAfterMs heap_error_null (Ref 0) = None
   \<and> response_shadows heap_null_parameters (Ref 0)
   \<and> getTelegramRetryAfterMs heap_null_parameters (Ref 0) = None
   \<and> getTelegramRetryAfterMs heap_error_parameters (Str ''429'') = None"
proof -
  have a: "\<not> response_shadows heap_error_parameters (Ref 0)"
    by (simp add: response_shadows_def heap_error_parameters_def obj_at_def obj_def)
  have b: "first_shape_retry_after_ms heap_error_parameters (Ref 0) = Some (Fin 5000)"
    by (simp add: first_shape_retry_after_ms_def first_shape_candidate_def shapes_def
        heap_error_parameters_def obj_at_def obj_def)
  have c: "\<not> response_shadows heap_error_null (Ref 0)"
    by (simp add: response_shadows_def heap_error_null_def obj_at_def obj_def)
  have d: "first_shape_retry_after_ms heap_error_null (Ref 0) = None"
    by (simp add: first_shape_retry_after_ms_def first_shape_candidate_def shapes_def
        heap_error_null_def obj_at_def obj_def)
  have e: "response_shadows heap_null_parameters (Ref 0)"
    by (simp add: response_shadows_def heap_null_parameters_def obj_at_def obj_def)
  have f: "\<not> response_shadows heap_error_parameters (Str ''429'')"
    by (simp add: response_shadows_def)
  have g: "first_shape_retry_after_ms heap_error_parameters (Str ''429'') = None"
    by (simp add: first_shape_retry_after_ms_def first_shape_candidate_def shapes_def)
  show ?thesis
    using a b c d e f g
      retry_after_first_shape [of heap_error_parameters "Ref 0"]
      retry_after_first_shape [of heap_error_null "Ref 0"]
      retry_after_first_shape [of heap_null_parameters "Ref 0"]
      retry_after_first_shape [of heap_error_parameters "Str ''429''"]
    by simp
qed

section \<open>The backoff calculator\<close>

text \<open>
  Modelled from the spec: \<^verbatim>\<open>computeDelay\<close>, the backoff calculator of section 4.2 of the
  specification; its source (\<^verbatim>\<open>src/infra/retry.ts\<close>) is not among the sources. The raw
  delay is \<^verbatim>\<open>min(baseDelayMs * 2^attemptIndex, maxDelayMs)\<close>, the jitter multiplies it by
  \<^verbatim>\<open>1 + (U - 0.5) * 2 * jitterFraction\<close> for a sample \<open>U\<close> of the random source, and
  the result is floored to a non-negative integer. The delays are natural numbers, as the
  data model of section 3 has them.
\<close>

definition computeDelay :: "nat \<Rightarrow> nat \<Rightarrow> nat \<Rightarrow> real \<Rightarrow> real \<Rightarrow> nat" where
  "computeDelay baseDelayMs attemptIndex maxDelayMs jitterFraction U =
     (let raw = min (baseDelayMs * 2 ^ attemptIndex) maxDelayMs
      in nat \<lfloor>real raw * (1 + (U - 1 / 2) * 2 * jitterFraction)\<rfloor>)"

text \<open>
  C8. With \<^verbatim>\<open>jitterFraction = 0\<close> the delay does not depend on the random sample and is
  \<^verbatim>\<open>min(baseDelayMs * 2^attemptIndex, maxDelayMs)\<close>; for \<^verbatim>\<open>baseDelayMs = 400\<close> and
  \<^verbatim>\<open>maxDelayMs = 30000\<close> the delays at the attempt indices 0, 1 and 2 are 400, 800 and
  1600, and at the attempt index 10 the delay is 30000.
\<close>

theorem computeDelay_without_jitter:
  "computeDelay baseDelayMs attemptIndex maxDelayMs 0 U = min (baseDelayMs * 2 ^ attemptIndex) maxDelayMs
   \<and> computeDelay 400 0 30000 0 U = 400
   \<and> computeDelay 400 1 30000 0 U = 800
   \<and> computeDelay 400 2 30000 0 U = 1600
   \<and> computeDelay 400 10 30000 0 U = 30000"
  by (simp add: computeDelay_def)

section \<open>The channel retry runners\<close>

text \<open>
  \<^verbatim>\<open>RetryConfig\<close> is the type of the overrides (every field optional);
  \<^verbatim>\<open>resolveRetryConfig\<close> returns a configuration with every field set.
  \<^verbatim>\<open>RetryAttemptInfo\<close> is what the engine hands to \<^verbatim>\<open>onRetry\<close>, and
  \<^verbatim>\<open>RetryOptions\<close> what a runner hands to \<^verbatim>\<open>retryAsync\<close>. An \<^verbatim>\<open>onRetry\<close> hook is
  modelled by the line it writes with \<^verbatim>\<open>console.warn\<close>.
\<close>

record RetryConfig =
  cfg_attempts :: "int option"
  cfg_minDelayMs :: "nat option"
  cfg_maxDelayMs :: "nat option"
  cfg_jitter :: "real option"

record ResolvedRetryConfig =
  attempts :: int
  minDelayMs :: nat
  maxDelayMs :: nat
  jitter :: real

record RetryAttemptInfo =
  attempt :: int
  maxAttempts :: int
  delayMs :: int
  info_label :: "string option"
  info_err :: jsval

record RetryOptions = ResolvedRetryConfig +
  label :: "string option"
  shouldRetry :: "jsval \<Rightarrow> bool"
  retryAfterMs :: "jsval \<Rightarrow> jsnum option"
  onRetry :: "(RetryAttemptInfo \<Rightarrow> string) option"

record RunnerParams =
  retry :: "RetryConfig option"
  configRetry :: "RetryConfig option"
  verbose :: "bool option"
  params_shouldRetry :: "(jsval \<Rightarrow> bool) option"

type_synonym config_resolver = "ResolvedRetryConfig \<Rightarrow> RetryConfig \<Rightarrow> ResolvedRetryConfig"

definition DISCORD_RETRY_DEFAULTS :: ResolvedRetryConfig where
  "DISCORD_RETRY_DEFAULTS = \<lparr>attempts = 3, minDelayMs = 500, maxDelayMs = 30000, jitter = 1 / 10\<rparr>"

definition TELEGRAM_RETRY_DEFAULTS :: ResolvedRetryConfig where
  "TELEGRAM_RETRY_DEFAULTS = \<lparr>attempts = 3, minDelayMs = 400, maxDelayMs = 30000, jitter = 1 / 10\<rparr>"

text \<open>
  \<^verbatim>\<open>/429|timeout|connect|reset|closed|unavailable|temporarily/i\<close>: the alternatives, and
  the test of a string against them without regard to case.
\<close>

definition TELEGRAM_RETRY_RE :: "string list" where
  "TELEGRAM_RETRY_RE =
     [''429'', ''timeout'', ''connect'', ''reset'', ''closed'', ''unavailable'', ''temporarily'']"

definition TELEGRAM_RETRY_RE_test :: "string \<Rightarrow> bool" where
  "TELEGRAM_RETRY_RE_test s = list_ex (js_includes (toLowerCase s)) TELEGRAM_RETRY_RE"

text \<open>
  \<^verbatim>\<open>{ ...params.configRetry, ...params.retry }\<close>, on overrides whose fields are set or
  absent; a field that holds an explicit \<^verbatim>\<open>undefined\<close> is not represented.
\<close>

definition later_wins :: "'a option \<Rightarrow> 'a option \<Rightarrow> 'a option" where
  "later_wins a b = (case b of Some v \<Rightarrow> Some v | None \<Rightarrow> a)"

definition no_overrides :: RetryConfig where
  "no_overrides = \<lparr>cfg_attempts = None, cfg_minDelayMs = None, cfg_maxDelayMs = None, cfg_jitter = None\<rparr>"

definition spread :: "RetryConfig option \<Rightarrow> RetryConfig option \<Rightarrow> RetryConfig" where
  "spread a b =
     (let x = (case a of None \<Rightarrow> no_overrides | Some c \<Rightarrow> c);
          y = (case b of None \<Rightarrow> no_overrides | Some c \<Rightarrow> c)
      in \<lparr>cfg_attempts = later_wins (cfg_attempts x) (cfg_attempts y),
          cfg_minDelayMs = later_wins (cfg_minDelayMs x) (cfg_minDelayMs y),
          cfg_maxDelayMs = later_wins (cfg_maxDelayMs x) (cfg_maxDelayMs y),
          cfg_jitter = later_wins (cfg_jitter x) (cfg_jitter y)\<rparr>)"

text \<open>
  A property that its class declares a \<^verbatim>\<open>number\<close>, such as \<^verbatim>\<open>retryAfter\<close> of
  \<^verbatim>\<open>RateLimitError\<close>; a value of another type is read as \<^verbatim>\<open>NaN\<close>.
\<close>

definition number_prop :: "heap \<Rightarrow> jsval \<Rightarrow> string \<Rightarrow> jsnum" where
  "number_prop h v key = (case get_prop h v key of Num x \<Rightarrow> x | _ \<Rightarrow> NaN)"

text \<open>\<^verbatim>\<open>lbl ?? "request"\<close>\<close>

definition or_request :: "string option \<Rightarrow> string" where
  "or_request lbl = (case lbl of None \<Rightarrow> ''request'' | Some l \<Rightarrow> l)"

text \<open>
  The options \<^verbatim>\<open>createDiscordRetryRunner\<close> passes to \<^verbatim>\<open>retryAsync\<close>, and the runner.
  \<^verbatim>\<open>resolveRetryConfig\<close> and \<^verbatim>\<open>retryAsync\<close> are imported from
  \<^verbatim>\<open>src/infra/retry.ts\<close> and taken as parameters; the store is the one in which the
  callbacks inspect the error.
\<close>

definition discord_retry_options ::
  "config_resolver \<Rightarrow> heap \<Rightarrow> RunnerParams \<Rightarrow> string option \<Rightarrow> RetryOptions" where
  "discord_retry_options resolveRetryConfig h params lbl =
     (let retryConfig =
            resolveRetryConfig DISCORD_RETRY_DEFAULTS (spread (configRetry params) (retry params))
      in \<lparr>attempts = attempts retryConfig,
          minDelayMs = minDelayMs retryConfig,
          maxDelayMs = maxDelayMs retryConfig,
          jitter = jitter retryConfig,
          label = lbl,
          shouldRetry = (\<lambda>err. instance_of h err ''RateLimitError''),
          retryAfterMs =
            (\<lambda>err. if instance_of h err ''RateLimitError''
                   then Some (js_times_1000 (number_prop h err ''retryAfter'')) else None),
          onRetry =
            (if verbose params = Some True
             then Some (\<lambda>info.
               let labelText = or_request (info_label info);
                   maxRetries = max 1 (maxAttempts info - 1)
               in ''discord '' @ labelText @ '' rate limited, retry ''
                  @ int_to_string (attempt info) @ ''/'' @ int_to_string maxRetries
                  @ '' in '' @ int_to_string (delayMs info) @ ''ms'')
             else None)\<rparr>)"

definition createDiscordRetryRunner ::
  "config_resolver \<Rightarrow> ('op \<Rightarrow> RetryOptions \<Rightarrow> 'res) \<Rightarrow> heap \<Rightarrow> RunnerParams
     \<Rightarrow> 'op \<Rightarrow> string option \<Rightarrow> 'res" where
  "createDiscordRetryRunner resolveRetryConfig retryAsync h params fn lbl =
     retryAsync fn (discord_retry_options resolveRetryConfig h params lbl)"

text \<open>The same for \<^verbatim>\<open>createTelegramRetryRunner\<close>.\<close>

definition telegram_retry_options ::
  "config_resolver \<Rightarrow> message_formatter \<Rightarrow> heap \<Rightarrow> RunnerParams \<Rightarrow> string option
     \<Rightarrow> RetryOptions" where
  "telegram_retry_options resolveRetryConfig formatErrorMessage h params lbl =
     (let retryConfig =
            resolveRetryConfig TELEGRAM_RETRY_DEFAULTS (spread (configRetry params) (retry params))
      in \<lparr>attempts = attempts retryConfig,
          minDelayMs = minDelayMs retryConfig,
          maxDelayMs = maxDelayMs retryConfig,
          jitter = jitter retryConfig,
          label = lbl,
          shouldRetry =
            (case params_shouldRetry params of
               Some custom \<Rightarrow>
                 (\<lambda>err. custom err \<or> TELEGRAM_RETRY_RE_test (formatErrorMessage h err))
             | None \<Rightarrow> (\<lambda>err. TELEGRAM_RETRY_RE_test (formatErrorMessage h err))),
          retryAfterMs = getTelegramRetryAfterMs h,
          onRetry =
            (if verbose params = Some True
             then Some (\<lambda>info.
               let maxRetries = max 1 (maxAttempts info - 1)
               in ''telegram send retry '' @ int_to_string (attempt info) @ ''/''
                  @ int_to_string maxRetries @ '' for ''
                  @ (case info_label info of
                       Some l \<Rightarrow> l
                     | None \<Rightarrow> or_request lbl)
                  @ '' in '' @ int_to_string (delayMs info) @ ''ms: ''
                  @ formatErrorMessage h (info_err info))
             else None)\<rparr>)"

definition createTelegramRetryRunner ::
  "config_resolver \<Rightarrow> message_formatter \<Rightarrow> ('op \<Rightarrow> RetryOptions \<Rightarrow> 'res) \<Rightarrow> heap
     \<Rightarrow> RunnerParams \<Rightarrow> 'op \<Rightarrow> string option \<Rightarrow> 'res" where
  "createTelegramRetryRunner resolveRetryConfig formatErrorMessage retryAsync h params fn lbl =
     retryAsync fn (telegram_retry_options resolveRetryConfig formatErrorMessage h params lbl)"

text \<open>
  Modelled from the spec: \<^verbatim>\<open>resolveRetryConfig\<close> of \<^verbatim>\<open>src/infra/retry.ts\<close>, which is
  not among the sources. By section 4.1 of the specification, the fields present in the
  override replace those of the defaults and absent fields leave them untouched.
\<close>

definition resolveRetryConfig_spec :: config_resolver where
  "resolveRetryConfig_spec defaults overrides =
     \<lparr>attempts = (case cfg_attempts overrides of Some v \<Rightarrow> v | None \<Rightarrow> attempts defaults),
      minDelayMs = (case cfg_minDelayMs overrides of Some v \<Rightarrow> v | None \<Rightarrow> minDelayMs defaults),
      maxDelayMs = (case cfg_maxDelayMs overrides of Some v \<Rightarrow> v | None \<Rightarrow> maxDelayMs defaults),
      jitter = (case cfg_jitter overrides of Some v \<Rightarrow> v | None \<Rightarrow> jitter defaults)\<rparr>"

text \<open>
  What a run of the retry engine gives: the final outcome (an error \<open>Inl\<close> or a value
  \<open>Inr\<close>), the number of invocations of the operation, and the information of every
  retry.
\<close>

record 'a retry_result =
  outcome :: "jsval + 'a"
  invocations :: nat
  retried :: "RetryAttemptInfo list"

text \<open>
  Modelled from the spec: the attempt loop of \<^verbatim>\<open>retryAsync\<close> of
  \<^verbatim>\<open>src/infra/retry.ts\<close>, which is not among the sources, after the state machine of
  section 4.4 of the specification. The operation is given by the outcome of its \<open>n\<close>-th
  invocation, and \<open>U n\<close> is the sample of the random source for the \<open>n\<close>-th attempt. A
  failure is final when the attempt counter has reached \<^verbatim>\<open>attempts\<close> (a value below 1
  counts as 1) or \<^verbatim>\<open>shouldRetry\<close> is false; otherwise the wait is the finite
  \<^verbatim>\<open>retryAfterMs\<close> of the error, at least \<^verbatim>\<open>minDelayMs\<close>, or else the backoff for the
  attempt index, and the next attempt follows.
\<close>

function retry_attempt ::
  "(nat \<Rightarrow> real) \<Rightarrow> (nat \<Rightarrow> jsval + 'a) \<Rightarrow> RetryOptions \<Rightarrow> nat \<Rightarrow> 'a retry_result" where
  "retry_attempt U operation opts n =
     (case operation n of
        Inr v \<Rightarrow> \<lparr>outcome = Inr v, invocations = 1, retried = []\<rparr>
      | Inl e \<Rightarrow>
          if max 1 (attempts opts) \<le> int n \<or> \<not> shouldRetry opts e
          then \<lparr>outcome = Inl e, invocations = 1, retried = []\<rparr>
          else
            let wait =
                  (case retryAfterMs opts e of
                     Some (Fin ms) \<Rightarrow> max ms (int (minDelayMs opts))
                   | _ \<Rightarrow> int (computeDelay (minDelayMs opts) (n - 1) (maxDelayMs opts)
                                 (jitter opts) (U n)));
                info = \<lparr>attempt = int n, maxAttempts = attempts opts, delayMs = wait,
                         info_label = label opts, info_err = e\<rparr>;
                rest = retry_attempt U operation opts (Suc n)
            in rest\<lparr>invocations := Suc (invocations rest), retried := info # retried rest\<rparr>)"
  by pat_completeness auto
termination
  by (relation "measure (\<lambda>(U, operation, opts, n). nat (max 1 (attempts opts)) - n)") auto

declare retry_attempt.simps [simp del]

text \<open>
  Modelled from the spec: \<^verbatim>\<open>retryAsync\<close>, which starts the loop with the attempt
  counter at 1.
\<close>

definition retryAsync_spec ::
  "(nat \<Rightarrow> real) \<Rightarrow> (nat \<Rightarrow> jsval + 'a) \<Rightarrow> RetryOptions \<Rightarrow> 'a retry_result" where
  "retryAsync_spec U operation opts = retry_attempt U operation opts 1"

subsection \<open>Example errors and parameters\<close>

definition rate_limit_obj :: "int \<Rightarrow> jsobj" where
  "rate_limit_obj seconds =
     \<lparr>props = [(''name'', Str ''RateLimitError''), (''retryAfter'', Num (Fin seconds))],
      elems = None, classes = [''RateLimitError'', ''Error'']\<rparr>"

definition heap_discord :: heap where
  "heap_discord =
     [rate_limit_obj 2,
      \<lparr>props = [(''message'', Str ''Missing Permissions'')], elems = None, classes = [''Error'']\<rparr>]"

definition no_params :: RunnerParams where
  "no_params = \<lparr>retry = None, configRetry = None, verbose = None, params_shouldRetry = None\<rparr>"

definition verbose_params :: RunnerParams where
  "verbose_params = \<lparr>retry = None, configRetry = None, verbose = Some True, params_shouldRetry = None\<rparr>"

definition first_retry :: RetryAttemptInfo where
  "first_retry = \<lparr>attempt = 1, maxAttempts = 3, delayMs = 500, info_label = None, info_err = Ref 0\<rparr>"

definition always_fails :: "jsval \<Rightarrow> nat \<Rightarrow> jsval + unit" where
  "always_fails e n = Inl e"

subsection \<open>Properties of the runners\<close>







text \<open>
  With the defaults, an operation that always fails with a \<^verbatim>\<open>RateLimitError\<close> whose
  \<^verbatim>\<open>retryAfter\<close> is 2 is invoked three times, after waits of 2000 ms.
\<close>

lemma discord_rate_limited_run:
  "invocations (createDiscordRetryRunner resolveRetryConfig_spec (retryAsync_spec (\<lambda>n. 1 / 2))
        heap_discord no_params (always_fails (Ref 0)) None) = 3
   \<and> map delayMs (retried (createDiscordRetryRunner resolveRetryConfig_spec (retryAsync_spec (\<lambda>n. 1 / 2))
        heap_discord no_params (always_fails (Ref 0)) None)) = [2000, 2000]"
  by (simp add: createDiscordRetryRunner_def retryAsync_spec_def retry_attempt.simps
      discord_retry_options_def resolveRetryConfig_spec_def spread_def
      no_overrides_def later_wins_def no_params_def DISCORD_RETRY_DEFAULTS_def always_fails_def
      heap_discord_def rate_limit_obj_def obj_at_def number_prop_def Let_def)

subsection \<open>The verbose observation hook\<close>

text \<open>
  The line as the specification words it:
  \<^verbatim>\<open><channel> <label-or-'request'> retry <n>/<max> in <ms>ms\<close>, with \<^verbatim>\<open><max>\<close> the
  \<^verbatim>\<open>maxAttempts\<close> of the information, optionally followed by \<^verbatim>\<open>: <error message>\<close>.
\<close>

definition spec_retry_line :: "string \<Rightarrow> RetryAttemptInfo \<Rightarrow> string" where
  "spec_retry_line channel info =
     channel @ '' '' @ or_request (info_label info) @ '' retry '' @ int_to_string (attempt info)
     @ ''/'' @ int_to_string (maxAttempts info) @ '' in '' @ int_to_string (delayMs info) @ ''ms''"

definition has_spec_form :: "string \<Rightarrow> string \<Rightarrow> RetryAttemptInfo \<Rightarrow> bool" where
  "has_spec_form line channel info =
     (line = spec_retry_line channel info \<or> prefix (spec_retry_line channel info @ '': '') line)"

text \<open>The line the hook of a runner writes for a retry, when the runner has a hook.\<close>

definition hook_line :: "RetryOptions \<Rightarrow> RetryAttemptInfo \<Rightarrow> string option" where
  "hook_line opts info = (case onRetry opts of None \<Rightarrow> None | Some hook \<Rightarrow> Some (hook info))"

lemma first_retry_numbers:
  "int_to_string 1 = ''1''" "int_to_string 2 = ''2''" "int_to_string 3 = ''3''"
  "int_to_string 500 = ''500''"
  by (simp_all add: int_to_string_def nat_to_string.simps digit_char_def)

text \<open>
  C7, as stated, fails: for the first retry of three attempts after 500 ms, the Discord
  hook writes \<^verbatim>\<open>discord request rate limited, retry 1/2 in 500ms\<close> and the Telegram hook
  \<^verbatim>\<open>telegram send retry 1/2 for request in 500ms: ...\<close>. Neither has the form of the
  claim, and the number after the slash is 2, not the 3 of \<^verbatim>\<open>maxAttempts\<close>.
\<close>

theorem verbose_hook_line_counterexample:
  "hook_line (discord_retry_options resolveRetryConfig_spec heap_msg verbose_params None) first_retry
     = Some ''discord request rate limited, retry 1/2 in 500ms''
   \<and> spec_retry_line ''discord'' first_retry = ''discord request retry 1/3 in 500ms''
   \<and> \<not> has_spec_form ''discord request rate limited, retry 1/2 in 500ms'' ''discord'' first_retry
   \<and> hook_line (telegram_retry_options resolveRetryConfig_spec formatErrorMessage_spec heap_msg
        verbose_params None) first_retry
     = Some ''telegram send retry 1/2 for request in 500ms: network error occurred''
   \<and> spec_retry_line ''telegram'' first_retry = ''telegram request retry 1/3 in 500ms''
   \<and> \<not> has_spec_form ''telegram send retry 1/2 for request in 500ms: network error occurred''
        ''telegram'' first_retry"
  by (simp add: hook_line_def discord_retry_options_def telegram_retry_options_def
      verbose_params_def first_retry_def or_request_def Let_def first_retry_numbers
      spec_retry_line_def has_spec_form_def formatErrorMessage_spec_def heap_msg_def
      obj_at_def obj_def)

text \<open>
  C7, amended. When \<^verbatim>\<open>verbose\<close> is true, the hook of the Discord runner writes, for a
  retry, the single line
  \<^verbatim>\<open>discord <label-or-'request'> rate limited, retry <n>/<m> in <ms>ms\<close> and the hook of
  the Telegram runner the single line
  \<^verbatim>\<open>telegram send retry <n>/<m> for <label-or-'request'> in <ms>ms: <error message>\<close>,
  where \<^verbatim>\<open><n>\<close> is the \<^verbatim>\<open>attempt\<close> of the information and \<^verbatim>\<open><m>\<close> is
  \<^verbatim>\<open>max(1, maxAttempts - 1)\<close>; the Telegram label is that of the information, else that
  of the call, else \<^verbatim>\<open>request\<close>. When \<^verbatim>\<open>verbose\<close> is not true, the runners have no
  hook.
\<close>

theorem verbose_hook_lines:
  "(verbose params = Some True \<longrightarrow>
      hook_line (discord_retry_options resolve h params lbl) info
        = Some (''discord '' @ or_request (info_label info) @ '' rate limited, retry ''
                @ int_to_string (attempt info) @ ''/''
                @ int_to_string (max 1 (maxAttempts info - 1))
                @ '' in '' @ int_to_string (delayMs info) @ ''ms'')
    \<and> hook_line (telegram_retry_options resolve fmt h params lbl) info
        = Some (''telegram send retry '' @ int_to_string (attempt info) @ ''/''
                @ int_to_string (max 1 (maxAttempts info - 1)) @ '' for ''
                @ (case info_label info of Some l \<Rightarrow> l | None \<Rightarrow> or_request lbl)
                @ '' in '' @ int_to_string (delayMs info) @ ''ms: '' @ fmt h (info_err info)))
   \<and> (verbose params \<noteq> Some True \<longrightarrow>
      hook_line (discord_retry_options resolve h params lbl) info = None
    \<and> hook_line (telegram_retry_options resolve fmt h params lbl) info = None)"
  by (simp add: hook_line_def discord_retry_options_def telegram_retry_options_def Let_def)

theorem verbose_hook_lines_witness:
  "verbose verbose_params = Some True
   \<and> hook_line (discord_retry_options resolveRetryConfig_spec heap_msg verbose_params None) first_retry
     = Some ''discord request rate limited, retry 1/2 in 500ms''
   \<and> hook_line (telegram_retry_options resolveRetryConfig_spec formatErrorMessage_spec heap_msg
        verbose_params (Some ''sendMessage'')) first_retry
     = Some ''telegram send retry 1/2 for sendMessage in 500ms: network error occurred''
   \<and> verbose no_params \<noteq> Some True
   \<and> hook_line (discord_retry_options resolveRetryConfig_spec heap_msg no_params None) first_retry = None"
proof -
  have v: "verbose verbose_params = Some True" "verbose no_params \<noteq> Some True"
    by (simp_all add: verbose_params_def no_params_def)
  have i: "info_label first_retry = None" "attempt first_retry = 1" "maxAttempts first_retry = 3"
    "delayMs first_retry = 500" "info_err first_retry = Ref 0"
    by (simp_all add: first_retry_def)
  have m: "formatErrorMessage_spec heap_msg (Ref 0) = ''network error occurred''"
    by (simp add: formatErrorMessage_spec_def heap_msg_def obj_at_def obj_def)
  show ?thesis
    using v i m
      verbose_hook_lines [of verbose_params resolveRetryConfig_spec heap_msg None first_retry
        formatErrorMessage_spec]
      verbose_hook_lines [of verbose_params resolveRetryConfig_spec heap_msg "Some ''sendMessage''"
        first_retry formatErrorMessage_spec]
      verbose_hook_lines [of no_params resolveRetryConfig_spec heap_msg None first_retry
        formatErrorMessage_spec]
    by (simp add: or_request_def first_retry_numbers)
qed

section \<open>The API call logging wrapper\<close>

text \<open>
  \<^verbatim>\<open>withTelegramApiErrorLogging\<close>. A logger is a callback: called with a message, it
  returns (\<open>None\<close>) or throws (\<open>Some\<close> of what it throws). \<^verbatim>\<open>shouldLog\<close> returns a
  boolean or throws. Awaiting \<^verbatim>\<open>fn()\<close> gives an error \<open>Inl\<close> or a value \<open>Inr\<close>. The
  wrapper returns its own outcome and the calls it made to loggers, each with the logger
  called and the message. \<^verbatim>\<open>danger\<close> (of \<^verbatim>\<open>src/globals.ts\<close>), \<^verbatim>\<open>formatErrorMessage\<close>
  and the \<^verbatim>\<open>error\<close> method of the fallback subsystem logger are parameters.
\<close>

datatype log_sink = ExplicitLogger | RuntimeLogger | FallbackLogger

type_synonym TelegramApiLogger = "string \<Rightarrow> jsval option"

record RuntimeEnv =
  error :: "TelegramApiLogger option"

record 'a TelegramApiLoggingParams =
  operation :: string
  fn :: "unit \<Rightarrow> jsval + 'a"
  runtime :: "RuntimeEnv option"
  logger :: "TelegramApiLogger option"
  shouldLog :: "(jsval \<Rightarrow> jsval + bool) option"

definition resolveTelegramApiLogger ::
  "TelegramApiLogger \<Rightarrow> RuntimeEnv option \<Rightarrow> TelegramApiLogger option
     \<Rightarrow> log_sink \<times> TelegramApiLogger" where
  "resolveTelegramApiLogger fallbackLogger_error rt lg =
     (case lg of
        Some l \<Rightarrow> (ExplicitLogger, l)
      | None \<Rightarrow>
          (case rt of
             None \<Rightarrow> (FallbackLogger, fallbackLogger_error)
           | Some r \<Rightarrow>
               (case error r of
                  Some e \<Rightarrow> (RuntimeLogger, e)
                | None \<Rightarrow> (FallbackLogger, fallbackLogger_error))))"

text \<open>\<^verbatim>\<open>danger(`telegram ${operation} failed: ${errText}`)\<close>\<close>

definition failure_line :: "(string \<Rightarrow> string) \<Rightarrow> string \<Rightarrow> string \<Rightarrow> string" where
  "failure_line danger op errText = danger (''telegram '' @ op @ '' failed: '' @ errText)"

text \<open>\<^verbatim>\<open>!shouldLog || shouldLog(err)\<close>\<close>

definition log_wanted :: "'a TelegramApiLoggingParams \<Rightarrow> jsval \<Rightarrow> jsval + bool" where
  "log_wanted p e = (case shouldLog p of None \<Rightarrow> Inr True | Some f \<Rightarrow> f e)"

definition withTelegramApiErrorLogging ::
  "(string \<Rightarrow> string) \<Rightarrow> message_formatter \<Rightarrow> TelegramApiLogger \<Rightarrow> heap
     \<Rightarrow> 'a TelegramApiLoggingParams \<Rightarrow> (jsval + 'a) \<times> (log_sink \<times> string) list" where
  "withTelegramApiErrorLogging danger formatErrorMessage fallbackLogger_error h p =
     (case fn p () of
        Inr v \<Rightarrow> (Inr v, [])
      | Inl err \<Rightarrow>
          (case log_wanted p err of
             Inl thrown \<Rightarrow> (Inl thrown, [])
           | Inr False \<Rightarrow> (Inl err, [])
           | Inr True \<Rightarrow>
               (let errText = formatErrorMessage h err;
                    (sink, log) = resolveTelegramApiLogger fallbackLogger_error (runtime p) (logger p);
                    line = failure_line danger (operation p) errText
                in case log line of
                     Some thrown \<Rightarrow> (Inl thrown, [(sink, line)])
                   | None \<Rightarrow> (Inl err, [(sink, line)]))))"

subsection \<open>Example loggers and calls\<close>

definition quiet_logger :: TelegramApiLogger where
  "quiet_logger message = None"

definition broken_logger :: TelegramApiLogger where
  "broken_logger message = Some (Str ''logger failed'')"

definition broken_shouldLog :: "jsval \<Rightarrow> jsval + bool" where
  "broken_shouldLog e = Inl (Str ''predicate failed'')"

definition failing_call :: "unit TelegramApiLoggingParams" where
  "failing_call =
     \<lparr>operation = ''sendMessage'', fn = (\<lambda>u. Inl (Ref 0)), runtime = None,
      logger = None, shouldLog = None\<rparr>"

text \<open>
  The logger the specification names: the explicit one if given, else that of the runtime,
  else the fallback.
\<close>

definition resolved_sink :: "'a TelegramApiLoggingParams \<Rightarrow> log_sink" where
  "resolved_sink p =
     (if logger p \<noteq> None then ExplicitLogger
      else if (case runtime p of None \<Rightarrow> False | Some r \<Rightarrow> error r \<noteq> None) then RuntimeLogger
      else FallbackLogger)"

subsection \<open>Properties of the wrapper\<close>

lemma resolve_sink: "fst (resolveTelegramApiLogger fb (runtime p) (logger p)) = resolved_sink p"
  by (auto simp: resolveTelegramApiLogger_def resolved_sink_def split: option.splits)

text \<open>
  C4. For every \<^verbatim>\<open>fn\<close> and every error \<open>e\<close> thrown by \<^verbatim>\<open>fn()\<close>, the wrapper is to
  re-raise exactly \<open>e\<close>; the source says so itself (\<^verbatim>\<open>// Always re-throw\<close>,
  \<^verbatim>\<open>@throws The original error after logging\<close>). The log call and \<^verbatim>\<open>shouldLog\<close> run
  inside the \<^verbatim>\<open>catch\<close> block with no guard of their own, before \<^verbatim>\<open>throw err\<close>. At
  the calls below \<^verbatim>\<open>fn()\<close> throws the error at address 0. With a logger that throws,
  the wrapper raises what the logger threw, after one call to that logger; with a
  \<^verbatim>\<open>shouldLog\<close> that throws, it raises what \<^verbatim>\<open>shouldLog\<close> threw and logs nothing. In
  both the error of \<^verbatim>\<open>fn\<close> is lost.
\<close>

theorem logging_wrapper_masks_error:
  "fn (failing_call\<lparr>logger := Some broken_logger\<rparr>) () = Inl (Ref 0)
   \<and> withTelegramApiErrorLogging id formatErrorMessage_spec quiet_logger heap_msg
        (failing_call\<lparr>logger := Some broken_logger\<rparr>)
       = (Inl (Str ''logger failed''),
          [(ExplicitLogger, ''telegram sendMessage failed: network error occurred'')])
   \<and> fn (failing_call\<lparr>shouldLog := Some broken_shouldLog\<rparr>) () = Inl (Ref 0)
   \<and> withTelegramApiErrorLogging id formatErrorMessage_spec quiet_logger heap_msg
        (failing_call\<lparr>shouldLog := Some broken_shouldLog\<rparr>)
       = (Inl (Str ''predicate failed''), [])"
  by (simp add: withTelegramApiErrorLogging_def log_wanted_def failing_call_def
      broken_logger_def broken_shouldLog_def resolveTelegramApiLogger_def Let_def
      failure_line_def formatErrorMessage_spec_def heap_msg_def obj_at_def obj_def)

text \<open>
  What the wrapper does when its callbacks return.
  When \<^verbatim>\<open>fn()\<close> succeeds, the wrapper returns its value and logs nothing.
  When \<^verbatim>\<open>fn()\<close> throws \<open>e\<close> and \<^verbatim>\<open>shouldLog(e)\<close> returns false, the wrapper raises
  \<open>e\<close> and logs nothing. When \<^verbatim>\<open>fn()\<close> throws \<open>e\<close>, \<^verbatim>\<open>shouldLog\<close> is absent or
  returns true, and the logger returns, the wrapper raises \<open>e\<close> and has logged exactly one
  line, naming the operation and the formatted error, with the explicit logger if given,
  else the runtime logger, else the fallback logger.
\<close>

lemma logging_wrapper_observes:
  "(fn p () = Inr v \<longrightarrow>
      withTelegramApiErrorLogging danger fmt fb h p = (Inr v, []))
   \<and> (fn p () = Inl e \<and> log_wanted p e = Inr False \<longrightarrow>
      withTelegramApiErrorLogging danger fmt fb h p = (Inl e, []))
   \<and> (fn p () = Inl e \<and> log_wanted p e = Inr True
      \<and> snd (resolveTelegramApiLogger fb (runtime p) (logger p))
            (failure_line danger (operation p) (fmt h e)) = None \<longrightarrow>
      withTelegramApiErrorLogging danger fmt fb h p
        = (Inl e, [(resolved_sink p, failure_line danger (operation p) (fmt h e))]))"
  using resolve_sink [of fb p]
  by (auto simp: withTelegramApiErrorLogging_def Let_def
      split: option.splits sum.splits prod.splits bool.splits)

lemma logging_wrapper_observes_examples:
  "withTelegramApiErrorLogging id formatErrorMessage_spec quiet_logger heap_msg
       (failing_call\<lparr>fn := (\<lambda>u. Inr ())\<rparr>) = (Inr (), [])
   \<and> withTelegramApiErrorLogging id formatErrorMessage_spec quiet_logger heap_msg
       (failing_call\<lparr>shouldLog := Some (\<lambda>e. Inr False)\<rparr>) = (Inl (Ref 0), [])
   \<and> withTelegramApiErrorLogging id formatErrorMessage_spec quiet_logger heap_msg failing_call
       = (Inl (Ref 0), [(FallbackLogger, ''telegram sendMessage failed: network error occurred'')])
   \<and> withTelegramApiErrorLogging id formatErrorMessage_spec quiet_logger heap_msg
       (failing_call\<lparr>runtime := Some \<lparr>error = Some quiet_logger\<rparr>,
                      shouldLog := Some (\<lambda>e. Inr True)\<rparr>)
       = (Inl (Ref 0), [(RuntimeLogger, ''telegram sendMessage failed: network error occurred'')])
   \<and> withTelegramApiErrorLogging id formatErrorMessage_spec broken_logger heap_msg
       (failing_call\<lparr>runtime := Some \<lparr>error = Some broken_logger\<rparr>, logger := Some quiet_logger\<rparr>)
       = (Inl (Ref 0), [(ExplicitLogger, ''telegram sendMessage failed: network error occurred'')])"
proof -
  have m: "formatErrorMessage_spec heap_msg (Ref 0) = ''network error occurred''"
    by (simp add: formatErrorMessage_spec_def heap_msg_def obj_at_def obj_def)
  show ?thesis
    using m
      logging_wrapper_observes [where p = "failing_call\<lparr>fn := (\<lambda>u. Inr ())\<rparr>" and e = "Ref 0" and v = "()"
        and danger = id and fmt = formatErrorMessage_spec and fb = quiet_logger and h = heap_msg]
      logging_wrapper_observes [where p = "failing_call\<lparr>shouldLog := Some (\<lambda>e. Inr False)\<rparr>" and e = "Ref 0" and v = "()"
        and danger = id and fmt = formatErrorMessage_spec and fb = quiet_logger and h = heap_msg]
      logging_wrapper_observes [where p = failing_call and e = "Ref 0" and v = "()"
        and danger = id and fmt = formatErrorMessage_spec and fb = quiet_logger and h = heap_msg]
      logging_wrapper_observes [where p = "failing_call\<lparr>runtime := Some \<lparr>error = Some quiet_logger\<rparr>,
                      shouldLog := Some (\<lambda>e. Inr True)\<rparr>" and e = "Ref 0" and v = "()"
        and danger = id and fmt = formatErrorMessage_spec and fb = quiet_logger and h = heap_msg]
      logging_wrapper_observes [where p = "failing_call\<lparr>runtime := Some \<lparr>error = Some broken_logger\<rparr>,
                      logger := Some quiet_logger\<rparr>" and e = "Ref 0" and v = "()"
        and danger = id and fmt = formatErrorMessage_spec and fb = broken_logger and h = heap_msg]
    by (simp add: failing_call_def log_wanted_def resolveTelegramApiLogger_def resolved_sink_def
        failure_line_def quiet_logger_def)
qed

end
